theory Spec2Isabelle
  imports Main "HOL-Library.Word"
begin

section \<open>The binary file handle\<close>

text \<open>
  The reader in \<^verbatim>\<open>ggpk.py\<close> works on one handle obtained from
  \<^verbatim>\<open>open(filename, 'rb')\<close> and shared by every object of an archive. The handle
  is an explicit state: the bytes of the file, the read position, the number of
  \<^verbatim>\<open>close()\<close> calls it has received, the largest offset the operating system
  accepts in a seek on it, and the size of the largest read buffer the machine can
  allocate. Every operation returns its outcome together with the handle, also when it
  raises, since a raised exception does not undo the reads and seeks made before it.

  Python raises; the model returns \<open>Inl\<close> of the exception's class.
\<close>

type_synonym byte = "8 word"

datatype error =
    StructError | ValueError | OverflowError | UnicodeDecodeError | OSError
  | TypeError | AttributeError | KeyError | MemoryError | UnicodeEncodeError

record fd =
  fd_data :: "byte list"
  fd_pos :: nat
  fd_closes :: nat
  fd_maxoff :: nat
  fd_maxread :: nat

definition bind_io ::
  "(error + 'a) \<times> fd \<Rightarrow> ('a \<Rightarrow> fd \<Rightarrow> (error + 'b) \<times> fd) \<Rightarrow> (error + 'b) \<times> fd" where
  "bind_io m k = (case m of (Inl e, f) \<Rightarrow> (Inl e, f) | (Inr x, f) \<Rightarrow> k x f)"

text \<open>
  \<^verbatim>\<open>fd.read(n)\<close> of a buffered reader: up to \<open>n\<close> bytes from the position, all the
  remaining ones for \<open>n = -1\<close>, nothing at or past the end of the file; a size below
  \<open>-1\<close> and a closed handle raise \<^verbatim>\<open>ValueError\<close>, a size that does not fit a
  machine index raises \<^verbatim>\<open>OverflowError\<close>. The reader allocates a buffer of \<open>n\<close> bytes
  before it reads: a size above \<open>2 ^ 63 - 34\<close> raises \<^verbatim>\<open>OverflowError\<close> (the byte
  string is too large) and a size the machine cannot allocate raises \<^verbatim>\<open>MemoryError\<close>,
  both leaving the position where it was. \<open>fd_maxread\<close> is the largest size the machine
  allocates; the model takes a machine that allocates 4 GiB (\<open>2 ^ 32\<close> bytes) at least,
  which is what the longest name of a record asks for. \<open>read_limit\<close> is the largest size
  that passes both tests.
\<close>

definition read_limit :: "fd \<Rightarrow> nat" where
  "read_limit f = min (2 ^ 63 - 34) (max (2 ^ 32) (fd_maxread f))"

definition fd_read :: "int \<Rightarrow> fd \<Rightarrow> (error + byte list) \<times> fd" where
  "fd_read n f =
     (if 2 ^ 63 \<le> n then (Inl OverflowError, f)
      else if n < - 1 then (Inl ValueError, f)
      else if 0 < fd_closes f then (Inl ValueError, f)
      else if 2 ^ 63 - 34 < n then (Inl OverflowError, f)
      else if int (max (2 ^ 32) (fd_maxread f)) < n then (Inl MemoryError, f)
      else let rest = drop (fd_pos f) (fd_data f);
               chunk = (if n = - 1 then rest else take (nat n) rest)
           in (Inr chunk, f\<lparr>fd_pos := fd_pos f + length chunk\<rparr>))"

definition fd_tell :: "fd \<Rightarrow> (error + nat) \<times> fd" where
  "fd_tell f = (if 0 < fd_closes f then (Inl ValueError, f) else (Inr (fd_pos f), f))"

text \<open>
  \<^verbatim>\<open>fd.seek(offset)\<close> and \<^verbatim>\<open>fd.seek(offset, 1)\<close>. A target past the end of the
  file is accepted; a target that is negative or beyond what the operating system
  accepts raises \<^verbatim>\<open>OSError\<close> and leaves the position where it was.
\<close>

definition fd_seek :: "int \<Rightarrow> fd \<Rightarrow> (error + unit) \<times> fd" where
  "fd_seek offset f =
     (if 0 < fd_closes f then (Inl ValueError, f)
      else if 2 ^ 63 \<le> offset \<or> offset < - (2 ^ 63) then (Inl ValueError, f)
      else if offset < 0 \<or> int (fd_maxoff f) < offset then (Inl OSError, f)
      else (Inr (), f\<lparr>fd_pos := nat offset\<rparr>))"

definition fd_seek_cur :: "int \<Rightarrow> fd \<Rightarrow> (error + unit) \<times> fd" where
  "fd_seek_cur offset f =
     (if 0 < fd_closes f then (Inl ValueError, f)
      else if 2 ^ 63 \<le> offset \<or> offset < - (2 ^ 63) then (Inl ValueError, f)
      else if int (fd_pos f) + offset < 0 \<or> int (fd_maxoff f) < int (fd_pos f) + offset
        then (Inl OSError, f)
      else (Inr (), f\<lparr>fd_pos := nat (int (fd_pos f) + offset)\<rparr>))"

definition fd_close :: "fd \<Rightarrow> fd" where
  "fd_close f = f\<lparr>fd_closes := fd_closes f + 1\<rparr>"

section \<open>Structs and strings\<close>

text \<open>
  A \<^verbatim>\<open>struct.Struct\<close> is its size together with the function that unpacks a
  buffer of at least that size; all the formats of the reader are little-endian and
  unpadded (\<^verbatim>\<open><\<close>).
\<close>

fun le_nat :: "byte list \<Rightarrow> nat" where
  "le_nat [] = 0"
| "le_nat (b # bs) = unat b + 256 * le_nat bs"

definition unpack_I :: "byte list \<Rightarrow> nat" where
  "unpack_I bs = le_nat (take 4 bs)"

definition unpack_i :: "byte list \<Rightarrow> int" where
  "unpack_i bs = (let u = int (le_nat (take 4 bs)) in if u < 2 ^ 31 then u else u - 2 ^ 32)"

definition unpack_Q :: "byte list \<Rightarrow> nat" where
  "unpack_Q bs = le_nat (take 8 bs)"

type_synonym 'a struct = "nat \<times> (byte list \<Rightarrow> 'a)"

definition read_struct :: "fd \<Rightarrow> 'a struct \<Rightarrow> (error + 'a) \<times> fd" where
  "read_struct f s =
     bind_io (fd_read (int (fst s)) f) (\<lambda>buf f'.
       if length buf < fst s then (Inl StructError, f') else (Inr (snd s buf), f'))"

text \<open>
  \<^verbatim>\<open>s.decode('utf16')\<close>: a leading byte order mark selects the byte order and is
  dropped, the order is little-endian without one (the native order of the machines the
  tool runs on); surrogate pairs are joined; an odd number of bytes and an unpaired
  surrogate raise \<^verbatim>\<open>UnicodeDecodeError\<close>. A decoded string is the list of its code
  points.
\<close>

type_synonym str = "nat list"

fun utf16_units :: "bool \<Rightarrow> byte list \<Rightarrow> nat list" where
  "utf16_units be (a # b # bs) =
     (if be then 256 * unat a + unat b else unat a + 256 * unat b) # utf16_units be bs"
| "utf16_units be bs = []"

fun utf16_chars :: "nat list \<Rightarrow> error + str" where
  "utf16_chars [] = Inr []"
| "utf16_chars [u] = (if 0xD800 \<le> u \<and> u < 0xE000 then Inl UnicodeDecodeError else Inr [u])"
| "utf16_chars (u # v # us) =
     (if 0xD800 \<le> u \<and> u < 0xDC00 then
        (if 0xDC00 \<le> v \<and> v < 0xE000 then
           (case utf16_chars us of
              Inl e \<Rightarrow> Inl e
            | Inr cs \<Rightarrow> Inr ((0x10000 + (u - 0xD800) * 0x400 + (v - 0xDC00)) # cs))
         else Inl UnicodeDecodeError)
      else if 0xDC00 \<le> u \<and> u < 0xE000 then Inl UnicodeDecodeError
      else (case utf16_chars (v # us) of Inl e \<Rightarrow> Inl e | Inr cs \<Rightarrow> Inr (u # cs)))"

definition decode_str :: "byte list \<Rightarrow> error + str" where
  "decode_str s =
     (if odd (length s) then Inl UnicodeDecodeError
      else case utf16_units False s of
             [] \<Rightarrow> Inr []
           | u # us \<Rightarrow>
               if u = 0xFEFF then utf16_chars us
               else if u = 0xFFFE then utf16_chars (utf16_units True (drop 2 s))
               else utf16_chars (u # us))"

definition rstrip_nul :: "str \<Rightarrow> str" where
  "rstrip_nul s = rev (dropWhile (\<lambda>c. c = 0) (rev s))"

section \<open>Records of the archive\<close>

text \<open>
  A \<^verbatim>\<open>ChildPointer\<close> keeps the shared handle and an offset; the handle being the one
  state that is passed around, the pointer is its offset. \<^verbatim>\<open>_read_entry\<close> returns a
  \<^verbatim>\<open>DirectoryEntry\<close>, a \<^verbatim>\<open>FileEntry\<close> or \<^verbatim>\<open>None\<close>: an \<open>entry option\<close>.
\<close>

datatype ChildPointer = ChildPointer (where_cp: nat)

datatype entry =
    DirectoryEntry (name: str) (children: "ChildPointer list")
  | FileEntry (name: str) (where_fe: "int \<times> int")

definition pdir_info_struct :: "(int \<times> nat) struct" where
  "pdir_info_struct = (8, \<lambda>buf. (unpack_i buf, unpack_I (drop 4 buf)))"

definition pdir_child_struct :: "(nat \<times> nat) struct" where
  "pdir_child_struct = (12, \<lambda>buf. (unpack_I buf, unpack_Q (drop 4 buf)))"

definition file_info_struct :: "int struct" where
  "file_info_struct = (4, \<lambda>buf. unpack_i buf)"

definition entry_struct :: "(nat \<times> byte list) struct" where
  "entry_struct = (8, \<lambda>buf. (unpack_I buf, take 4 (drop 4 buf)))"

definition PDIR :: "byte list" where "PDIR = [0x50, 0x44, 0x49, 0x52]"
definition FILE :: "byte list" where "FILE = [0x46, 0x49, 0x4C, 0x45]"
definition FREE :: "byte list" where "FREE = [0x46, 0x52, 0x45, 0x45]"

text \<open>The loop of \<^verbatim>\<open>_read_pdir\<close> over \<^verbatim>\<open>range(childcount)\<close>.\<close>

primrec read_children ::
  "nat \<Rightarrow> ChildPointer list \<Rightarrow> fd \<Rightarrow> (error + ChildPointer list) \<times> fd" where
  "read_children 0 cs f = (Inr cs, f)"
| "read_children (Suc n) cs f =
     bind_io (read_struct f pdir_child_struct) (\<lambda>(_, childoffs) f1.
     bind_io (fd_tell f1) (\<lambda>nextpos f2.
     bind_io (fd_seek (int childoffs) f2) (\<lambda>_ f3.
     bind_io (fd_seek (int nextpos) f3) (\<lambda>_ f4.
       read_children n (cs @ [ChildPointer childoffs]) f4))))"

definition read_pdir :: "fd \<Rightarrow> (error + entry) \<times> fd" where
  "read_pdir f =
     bind_io (read_struct f pdir_info_struct) (\<lambda>(namesize, childcount) f1.
     bind_io (fd_seek_cur 0x20 f1) (\<lambda>_ f2.
     bind_io (fd_read (namesize * 2) f2) (\<lambda>nm f3.
       case decode_str nm of
         Inl e \<Rightarrow> (Inl e, f3)
       | Inr s \<Rightarrow>
           bind_io (read_children childcount [] f3) (\<lambda>cs f4.
             (Inr (DirectoryEntry (rstrip_nul s) cs), f4)))))"

definition read_file :: "fd \<Rightarrow> nat \<Rightarrow> (error + entry) \<times> fd" where
  "read_file f nextoffs =
     bind_io (read_struct f file_info_struct) (\<lambda>namesize f1.
     bind_io (fd_seek_cur 0x20 f1) (\<lambda>_ f2.
     bind_io (fd_read (namesize * 2) f2) (\<lambda>nm f3.
       case decode_str nm of
         Inl e \<Rightarrow> (Inl e, f3)
       | Inr s \<Rightarrow>
           bind_io (fd_tell f3) (\<lambda>offs f4.
             (Inr (FileEntry (rstrip_nul s) (int offs, int nextoffs - int offs)), f4)))))"

text \<open>
  \<^verbatim>\<open>_read_entry\<close>: after the \<^verbatim>\<open>FREE\<close> branch the function ends, so any other tag
  returns \<^verbatim>\<open>None\<close> too.
\<close>

definition read_entry :: "fd \<Rightarrow> (error + entry option) \<times> fd" where
  "read_entry f =
     bind_io (fd_tell f) (\<lambda>curoffs f1.
     bind_io (read_struct f1 entry_struct) (\<lambda>(nextoffs, ent_type) f2.
       if ent_type = PDIR then bind_io (read_pdir f2) (\<lambda>d f3. (Inr (Some d), f3))
       else if ent_type = FILE then
         bind_io (read_file f2 (curoffs + nextoffs)) (\<lambda>e f3. (Inr (Some e), f3))
       else if ent_type = FREE then (Inr None, f2)
       else (Inr None, f2)))"

text \<open>\<^verbatim>\<open>ChildPointer.read\<close>.\<close>

definition read_cp :: "ChildPointer \<Rightarrow> fd \<Rightarrow> (error + entry option) \<times> fd" where
  "read_cp c f = bind_io (fd_seek (int (where_cp c)) f) (\<lambda>_ f1. read_entry f1)"

text \<open>
  \<^verbatim>\<open>DirectoryEntry.__iter__\<close> is a generator yielding \<^verbatim>\<open>child.read()\<close> for each
  child in turn; \<open>iter_children\<close> is the list of what it yields when it is run to its
  end, and the exception that stops it otherwise. A \<^verbatim>\<open>FileEntry\<close> has no
  \<^verbatim>\<open>__iter__\<close>.
\<close>

fun iter_children :: "ChildPointer list \<Rightarrow> fd \<Rightarrow> (error + entry option list) \<times> fd" where
  "iter_children [] f = (Inr [], f)"
| "iter_children (c # cs) f =
     bind_io (read_cp c f) (\<lambda>r f1.
     bind_io (iter_children cs f1) (\<lambda>rs f2. (Inr (r # rs), f2)))"

fun iter_entry :: "entry \<Rightarrow> fd \<Rightarrow> (error + entry option list) \<times> fd" where
  "iter_entry (DirectoryEntry nm cs) f = iter_children cs f"
| "iter_entry (FileEntry nm w) f = (Inl TypeError, f)"

section \<open>The archive\<close>

record FileHeader =
  version :: nat
  identifier' :: "byte list"
  rootoffs :: nat

record File =
  header :: FileHeader
  root_dir :: "entry option"

definition FileHeader_read :: "fd \<Rightarrow> (error + FileHeader) \<times> fd" where
  "FileHeader_read f =
     bind_io (fd_read 28 f) (\<lambda>buf f'.
       if length buf < 28 then (Inl StructError, f')
       else (Inr \<lparr>version = unpack_I buf, identifier' = take 4 (drop 4 buf),
                  rootoffs = unpack_Q (drop 12 buf)\<rparr>, f'))"

definition read_fs :: "FileHeader \<Rightarrow> fd \<Rightarrow> (error + entry option) \<times> fd" where
  "read_fs h f = bind_io (fd_seek (int (rootoffs h)) f) (\<lambda>_ f1. read_entry f1)"

text \<open>
  \<^verbatim>\<open>File.__init__\<close> on the handle that \<^verbatim>\<open>open(filename, 'rb')\<close> returned, the
  handle the object keeps in \<^verbatim>\<open>self.fd\<close>.
\<close>

definition File_init_fd :: "fd \<Rightarrow> (error + File) \<times> fd" where
  "File_init_fd f =
     bind_io (FileHeader_read f) (\<lambda>h f1.
     bind_io (read_fs h f1) (\<lambda>r f2. (Inr \<lparr>header = h, root_dir = r\<rparr>, f2)))"

definition File_exit :: "fd \<Rightarrow> fd" where
  "File_exit f = fd_close f"

definition File_root :: "File \<Rightarrow> entry option" where
  "File_root a = root_dir a"

fun File_extract :: "entry \<Rightarrow> fd \<Rightarrow> (error + byte list) \<times> fd" where
  "File_extract (FileEntry nm w) f = bind_io (fd_seek (fst w) f) (\<lambda>_ f1. fd_read (snd w) f1)"
| "File_extract (DirectoryEntry nm cs) f = (Inl AttributeError, f)"

section \<open>The file system\<close>

text \<open>
  What the two programs ask of the operating system. \<open>fs_stat\<close> is
  \<^verbatim>\<open>os.stat(path).st_size\<close>, or the exception that \<^verbatim>\<open>os.stat\<close> raises for the path:
  \<^verbatim>\<open>OSError\<close> for a path that is not in the file system, \<^verbatim>\<open>ValueError\<close> for a path
  with an embedded NUL character, \<^verbatim>\<open>UnicodeEncodeError\<close> (a \<^verbatim>\<open>ValueError\<close> too) for
  a path that cannot be encoded. \<open>fs_file\<close> is the bytes that \<^verbatim>\<open>open(path, 'rb')\<close>
  gives access to, or the exception it raises (\<^verbatim>\<open>OSError\<close> for a missing file or a
  directory, \<^verbatim>\<open>ValueError\<close> for a path it rejects). \<open>fs_walk\<close> is the triples of
  \<^verbatim>\<open>os.walk\<close>; \<open>fs_maxoff\<close> and \<open>fs_maxread\<close> are the largest offset a seek
  accepts and the largest read buffer the machine allocates.
\<close>

record fs =
  fs_stat :: "string \<Rightarrow> error + nat"
  fs_file :: "string \<Rightarrow> error + byte list"
  fs_walk :: "string \<Rightarrow> (string \<times> string list \<times> string list) list"
  fs_maxoff :: nat
  fs_maxread :: nat

definition open_rb :: "fs \<Rightarrow> string \<Rightarrow> error + fd" where
  "open_rb s path =
     (case fs_file s path of
        Inl e \<Rightarrow> Inl e
      | Inr bs \<Rightarrow>
          Inr \<lparr>fd_data = bs, fd_pos = 0, fd_closes = 0, fd_maxoff = fs_maxoff s,
               fd_maxread = fs_maxread s\<rparr>)"

text \<open>
  \<^verbatim>\<open>File(filename)\<close>: the second component is the handle that was opened, if any, in
  the state the constructor leaves it in.
\<close>

definition File_init :: "fs \<Rightarrow> string \<Rightarrow> (error + File) \<times> fd option" where
  "File_init s filename =
     (case open_rb s filename of
        Inl e \<Rightarrow> (Inl e, None)
      | Inr f \<Rightarrow> (case File_init_fd f of (r, f') \<Rightarrow> (r, Some f')))"

section \<open>The directory comparison\<close>

definition Same :: nat where "Same = 0"
definition Modified :: nat where "Modified = 1"
definition New :: nat where "New = 2"
definition Deleted :: nat where "Deleted = 3"

definition DefaultText :: "(nat \<times> string) list" where
  "DefaultText =
     [(Same, ''SAME''), (Modified, ''MODIFIED''), (New, ''ADDED''), (Deleted, ''DELETED'')]"

definition ShorthandText :: "(nat \<times> string) list" where
  "ShorthandText = [(Same, ''[=]''), (Modified, ''[*]''), (New, ''[+]''), (Deleted, ''[-]'')]"

text \<open>
  \<^verbatim>\<open>os.path.exists\<close> calls \<^verbatim>\<open>os.stat\<close> and returns \<^verbatim>\<open>False\<close> when it raises
  \<^verbatim>\<open>OSError\<close> or \<^verbatim>\<open>ValueError\<close> (with its subclasses), letting any other exception
  through; \<^verbatim>\<open>os.path.getsize\<close> is \<^verbatim>\<open>os.stat(path).st_size\<close> and catches nothing.
\<close>

definition os_path_exists :: "fs \<Rightarrow> string \<Rightarrow> error + bool" where
  "os_path_exists s path =
     (case fs_stat s path of
        Inr _ \<Rightarrow> Inr True
      | Inl e \<Rightarrow>
          if e = OSError \<or> e = ValueError \<or> e = UnicodeEncodeError then Inr False else Inl e)"

definition os_path_getsize :: "fs \<Rightarrow> string \<Rightarrow> error + nat" where
  "os_path_getsize s path = (case fs_stat s path of Inl e \<Rightarrow> Inl e | Inr n \<Rightarrow> Inr n)"

definition os_path_join :: "string \<Rightarrow> string \<Rightarrow> string" where
  "os_path_join a b =
     (if b \<noteq> [] \<and> hd b = CHR ''/'' then b
      else if a = [] \<or> last a = CHR ''/'' then a @ b
      else a @ ''/'' @ b)"

definition tree :: "fs \<Rightarrow> string \<Rightarrow> bool \<Rightarrow> string list" where
  "tree s directory child_base =
     (let ws = fs_walk s directory;
          base = (case ws of
                    [] \<Rightarrow> 0
                  | (root, _, _) # _ \<Rightarrow> if child_base then length root + 1 else 0)
      in concat (map (\<lambda>(root, dirs, files). map (\<lambda>f. drop base (os_path_join root f)) files) ws))"

text \<open>
  The \<^verbatim>\<open>while True\<close> loop of \<^verbatim>\<open>compare\<close> on the two open handles, then the
  \<^verbatim>\<open>with\<close> statement that opens them (\<open>compare_files\<close>), then \<^verbatim>\<open>compare\<close>.
\<close>

function compare_loop :: "int \<Rightarrow> fd \<Rightarrow> fd \<Rightarrow> error + nat" where
  "compare_loop bufsize fd1 fd2 =
     (case fd_read bufsize fd1 of
        (Inl e, fd1') \<Rightarrow> Inl e
      | (Inr chunk1, fd1') \<Rightarrow>
          (case fd_read bufsize fd2 of
             (Inl e, fd2') \<Rightarrow> Inl e
           | (Inr chunk2, fd2') \<Rightarrow>
               if chunk1 \<noteq> chunk2 then Inr Modified
               else if chunk1 = [] \<and> chunk2 = [] then Inr Same
               else compare_loop bufsize fd1' fd2'))"
  by pat_completeness auto
termination
  by (relation "measure (\<lambda>(bufsize, fd1, fd2). length (fd_data fd1) - fd_pos fd1)")
     (auto simp: fd_read_def Let_def min_def split: if_splits
           dest!: arg_cong [where f = length])

definition compare_files :: "fs \<Rightarrow> string \<Rightarrow> string \<Rightarrow> int \<Rightarrow> error + nat" where
  "compare_files s f1 f2 bufsize =
     (case open_rb s f1 of
        Inl e \<Rightarrow> Inl e
      | Inr fd1 \<Rightarrow>
          (case open_rb s f2 of
             Inl e \<Rightarrow> Inl e
           | Inr fd2 \<Rightarrow> compare_loop bufsize fd1 fd2))"

definition compare :: "fs \<Rightarrow> string \<Rightarrow> string \<Rightarrow> int \<Rightarrow> error + nat" where
  "compare s f1 f2 bufsize =
     (case os_path_exists s f1 of
        Inl e \<Rightarrow> Inl e
      | Inr f1_exists \<Rightarrow>
          (case os_path_exists s f2 of
             Inl e \<Rightarrow> Inl e
           | Inr f2_exists \<Rightarrow>
               if \<not> f1_exists \<and> f2_exists then Inr New
               else if f1_exists \<and> \<not> f2_exists then Inr Deleted
               else (case os_path_getsize s f1 of
                       Inl e \<Rightarrow> Inl e
                     | Inr size1 \<Rightarrow>
                         (case os_path_getsize s f2 of
                            Inl e \<Rightarrow> Inl e
                          | Inr size2 \<Rightarrow>
                              if size1 \<noteq> size2 then Inr Modified
                              else compare_files s f1 f2 bufsize))))"

text \<open>
  \<^verbatim>\<open>write_summary_item\<close> writes one line to each of its files; the lines written to
  \<^verbatim>\<open>sys.stdout\<close> are the output of the model. The kind is padded to the width of
  the longest text plus one (\<^verbatim>\<open>max\<close> of an empty dict raises \<^verbatim>\<open>ValueError\<close>).
\<close>

definition calculate_kind_width :: "(nat \<times> string) list \<Rightarrow> nat" where
  "calculate_kind_width kind_text = fold max (map (\<lambda>(k, t). length t) kind_text) 0 + 1"

definition write_summary_item ::
  "(nat \<times> string) list \<Rightarrow> nat \<Rightarrow> string \<Rightarrow> string list \<Rightarrow> (error + unit) \<times> string list" where
  "write_summary_item kind_text kind item out =
     (if kind_text = [] then (Inl ValueError, out)
      else case map_of kind_text kind of
             None \<Rightarrow> (Inl KeyError, out)
           | Some t \<Rightarrow>
               (Inr (), out @ [t @ replicate (calculate_kind_width kind_text - length t) CHR '' ''
                                @ item @ [CHR 0x0A]]))"

fun diff_loop ::
  "fs \<Rightarrow> string \<Rightarrow> string \<Rightarrow> int \<Rightarrow> (nat \<times> string) list \<Rightarrow> string list \<Rightarrow> string list
     \<Rightarrow> (error + unit) \<times> string list" where
  "diff_loop s d1 d2 bufsize kind_text [] out = (Inr (), out)"
| "diff_loop s d1 d2 bufsize kind_text (f # t2) out =
     (case compare s (os_path_join d1 f) (os_path_join d2 f) bufsize of
        Inl e \<Rightarrow> (Inl e, out)
      | Inr result \<Rightarrow>
          if result \<noteq> Same then
            (case write_summary_item kind_text result f out of
               (Inl e, out') \<Rightarrow> (Inl e, out')
             | (Inr _, out') \<Rightarrow> diff_loop s d1 d2 bufsize kind_text t2 out')
          else diff_loop s d1 d2 bufsize kind_text t2 out)"

definition diff ::
  "fs \<Rightarrow> string \<Rightarrow> string \<Rightarrow> int \<Rightarrow> (nat \<times> string) list \<Rightarrow> (error + unit) \<times> string list" where
  "diff s d1 d2 bufsize kind_text =
     (let t1 = tree s d1 True;
          t2 = tree s d2 True
      in diff_loop s d1 d2 bufsize kind_text t2 [])"

section \<open>The layout of a record\<close>

text \<open>
  The fields of the record that starts at the position of a handle, as the structs of
  \<^verbatim>\<open>_read_entry\<close>, \<^verbatim>\<open>_read_pdir\<close> and \<^verbatim>\<open>_read_file\<close> lay them out: the entry
  header (next offset, tag) in bytes 0 to 7; for a file the name length in bytes 8 to 11,
  32 unknown bytes and the name from byte 44; for a directory the name length and the
  child count in bytes 8 to 15, 32 unknown bytes, the name from byte 48 and after it the
  table of children, 12 bytes each, the offset in the last 8.
\<close>

definition rec_nextoffs :: "fd \<Rightarrow> nat" where
  "rec_nextoffs f = unpack_I (drop (fd_pos f) (fd_data f))"

definition rec_tag :: "fd \<Rightarrow> byte list" where
  "rec_tag f = take 4 (drop (fd_pos f + 4) (fd_data f))"

definition rec_namesize :: "fd \<Rightarrow> int" where
  "rec_namesize f = unpack_i (drop (fd_pos f + 8) (fd_data f))"

definition file_name_bytes :: "fd \<Rightarrow> byte list" where
  "file_name_bytes f = take (2 * nat (rec_namesize f)) (drop (fd_pos f + 44) (fd_data f))"

definition file_data_start :: "fd \<Rightarrow> nat" where
  "file_data_start f = fd_pos f + 44 + length (file_name_bytes f)"





text \<open>
  The handle is open and stands at a record whose header is whole (\<open>at_record\<close>); at a
  file record whose name length is not negative and whose name the handle can seek to
  (\<open>at_file\<close>); at a directory record that is whole, with a table the handle can seek
  along and child offsets it can seek to (\<open>at_pdir\<close>).
\<close>

definition at_record :: "fd \<Rightarrow> bool" where
  "at_record f \<longleftrightarrow> fd_closes f = 0 \<and> fd_pos f + 8 \<le> length (fd_data f)"

definition at_file :: "fd \<Rightarrow> bool" where
  "at_file f \<longleftrightarrow>
     fd_closes f = 0 \<and> fd_pos f + 12 \<le> length (fd_data f) \<and> rec_tag f = FILE \<and>
     0 \<le> rec_namesize f \<and> fd_pos f + 44 \<le> fd_maxoff f"


text \<open>
  Two handles on the same file, on the same machine: they differ in their position at
  most.
\<close>

definition same_file :: "fd \<Rightarrow> fd \<Rightarrow> bool" where
  "same_file f g \<longleftrightarrow>
     fd_data f = fd_data g \<and> fd_closes f = fd_closes g \<and> fd_maxoff f = fd_maxoff g \<and>
     fd_maxread f = fd_maxread g"

definition file_extent :: "fd \<Rightarrow> int \<times> int" where
  "file_extent f =
     (int (file_data_start f),
      int (fd_pos f) + int (rec_nextoffs f) - int (file_data_start f))"

text \<open>The header that \<^verbatim>\<open>FileHeader.read\<close> unpacks from the first 28 bytes.\<close>

definition header_of :: "byte list \<Rightarrow> FileHeader" where
  "header_of bs =
     \<lparr>version = unpack_I bs, identifier' = take 4 (drop 4 bs), rootoffs = unpack_Q (drop 12 bs)\<rparr>"

text \<open>
  The identifier that the comment on the header struct names (\<^verbatim>\<open>Identifier 'GGPK'\<close>);
  no function of the reader mentions it.
\<close>

definition GGPK :: "byte list" where "GGPK = [0x47, 0x47, 0x50, 0x4B]"

section \<open>Example files\<close>

text \<open>
  An archive of 217 bytes: the header (version 1, identifier \<^verbatim>\<open>GGPK\<close>, root offset 28),
  at 28 a directory with an empty name and the children 112, 160 and 168, at 112 the file
  \<^verbatim>\<open>x\<close> with the data \<^verbatim>\<open>hi\<close>, at 160 a free record, at 168 the file \<^verbatim>\<open>y\<close> with
  the data \<^verbatim>\<open>yo!\<close>.
\<close>

definition ex_archive :: "byte list" where
  "ex_archive =
    [0x01, 0x00, 0x00, 0x00, 0x47, 0x47, 0x50, 0x4B, 0x00, 0x00, 0x00, 0x00, 0x1C, 0x00, 0x00, 0x00,
     0x00, 0x00, 0x00, 0x00, 0x00, 0x00, 0x00, 0x00, 0x00, 0x00, 0x00, 0x00, 0x54, 0x00, 0x00, 0x00,
     0x50, 0x44, 0x49, 0x52, 0x00, 0x00, 0x00, 0x00, 0x03, 0x00, 0x00, 0x00, 0x00, 0x00, 0x00, 0x00,
     0x00, 0x00, 0x00, 0x00, 0x00, 0x00, 0x00, 0x00, 0x00, 0x00, 0x00, 0x00, 0x00, 0x00, 0x00, 0x00,
     0x00, 0x00, 0x00, 0x00, 0x00, 0x00, 0x00, 0x00, 0x00, 0x00, 0x00, 0x00, 0x00, 0x00, 0x00, 0x00,
     0x70, 0x00, 0x00, 0x00, 0x00, 0x00, 0x00, 0x00, 0x00, 0x00, 0x00, 0x00, 0xA0, 0x00, 0x00, 0x00,
     0x00, 0x00, 0x00, 0x00, 0x00, 0x00, 0x00, 0x00, 0xA8, 0x00, 0x00, 0x00, 0x00, 0x00, 0x00, 0x00,
     0x30, 0x00, 0x00, 0x00, 0x46, 0x49, 0x4C, 0x45, 0x01, 0x00, 0x00, 0x00, 0x00, 0x00, 0x00, 0x00,
     0x00, 0x00, 0x00, 0x00, 0x00, 0x00, 0x00, 0x00, 0x00, 0x00, 0x00, 0x00, 0x00, 0x00, 0x00, 0x00,
     0x00, 0x00, 0x00, 0x00, 0x00, 0x00, 0x00, 0x00, 0x00, 0x00, 0x00, 0x00, 0x78, 0x00, 0x68, 0x69,
     0x08, 0x00, 0x00, 0x00, 0x46, 0x52, 0x45, 0x45, 0x31, 0x00, 0x00, 0x00, 0x46, 0x49, 0x4C, 0x45,
     0x01, 0x00, 0x00, 0x00, 0x00, 0x00, 0x00, 0x00, 0x00, 0x00, 0x00, 0x00, 0x00, 0x00, 0x00, 0x00,
     0x00, 0x00, 0x00, 0x00, 0x00, 0x00, 0x00, 0x00, 0x00, 0x00, 0x00, 0x00, 0x00, 0x00, 0x00, 0x00,
     0x00, 0x00, 0x00, 0x00, 0x79, 0x00, 0x79, 0x6F, 0x21]"

definition ex_fd :: "nat \<Rightarrow> fd" where
  "ex_fd p = \<lparr>fd_data = ex_archive, fd_pos = p, fd_closes = 0, fd_maxoff = 2 ^ 40, fd_maxread = 2 ^ 40\<rparr>"

text \<open>
  A file of 36 bytes whose identifier is \<^verbatim>\<open>XXXX\<close> and whose root offset 28 points at
  a free record.
\<close>

definition ex_badmagic :: "byte list" where
  "ex_badmagic =
    [0x01, 0x00, 0x00, 0x00, 0x58, 0x58, 0x58, 0x58, 0x00, 0x00, 0x00, 0x00, 0x1C, 0x00, 0x00, 0x00,
     0x00, 0x00, 0x00, 0x00, 0x00, 0x00, 0x00, 0x00, 0x00, 0x00, 0x00, 0x00, 0x08, 0x00, 0x00, 0x00,
     0x46, 0x52, 0x45, 0x45]"

text \<open>A handle at a record of 8 bytes with the tag \<^verbatim>\<open>XXXX\<close>.\<close>

definition ex_unknown :: fd where
  "ex_unknown =
     \<lparr>fd_data = [0x08, 0x00, 0x00, 0x00, 0x58, 0x58, 0x58, 0x58],
      fd_pos = 0, fd_closes = 0, fd_maxoff = 2 ^ 40, fd_maxread = 2 ^ 40\<rparr>"

text \<open>
  A handle at a file record with next offset 0 and an empty name: its data would start
  at 44 and end at 0.
\<close>

definition ex_neg :: fd where
  "ex_neg =
     \<lparr>fd_data =
        [0x00, 0x00, 0x00, 0x00, 0x46, 0x49, 0x4C, 0x45, 0x00, 0x00, 0x00, 0x00, 0x00, 0x00, 0x00, 0x00,
         0x00, 0x00, 0x00, 0x00, 0x00, 0x00, 0x00, 0x00, 0x00, 0x00, 0x00, 0x00, 0x00, 0x00, 0x00, 0x00,
         0x00, 0x00, 0x00, 0x00, 0x00, 0x00, 0x00, 0x00, 0x00, 0x00, 0x00, 0x00],
      fd_pos = 0, fd_closes = 0, fd_maxoff = 2 ^ 40, fd_maxread = 2 ^ 40\<rparr>"

text \<open>A handle on a file of three bytes.\<close>

definition ex_three :: fd where
  "ex_three = \<lparr>fd_data = [0x01, 0x02, 0x03], fd_pos = 0, fd_closes = 0, fd_maxoff = 2 ^ 40, fd_maxread = 2 ^ 40\<rparr>"

text \<open>
  A file system with the three archives, and with two directories to compare:
  \<^verbatim>\<open>old\<close> holds the file \<^verbatim>\<open>a\<close> only, \<^verbatim>\<open>new\<close> holds the file \<^verbatim>\<open>b\<close> only.
  A path with a NUL character in it is rejected with \<^verbatim>\<open>ValueError\<close>, any other path
  that is not listed is missing.
\<close>

definition ex_fs :: fs where
  "ex_fs =
     \<lparr>fs_stat = (\<lambda>p. if CHR 0x00 \<in> set p then Inl ValueError
                      else if p = ''old'' \<or> p = ''new'' then Inr 4096
                      else if p = ''old/a'' \<or> p = ''new/b'' then Inr 2
                      else if p = ''good.ggpk'' then Inr 217
                      else if p = ''bad.ggpk'' then Inr 36
                      else if p = ''empty.ggpk'' then Inr 0
                      else Inl OSError),
      fs_file = (\<lambda>p. if CHR 0x00 \<in> set p then Inl ValueError
                      else if p = ''old/a'' then Inr [0x68, 0x69]
                      else if p = ''new/b'' then Inr [0x79, 0x6F]
                      else if p = ''good.ggpk'' then Inr ex_archive
                      else if p = ''bad.ggpk'' then Inr ex_badmagic
                      else if p = ''empty.ggpk'' then Inr []
                      else Inl OSError),
      fs_walk = (\<lambda>d. if d = ''old'' then [(''old'', [], [''a''])]
                      else if d = ''new'' then [(''new'', [], [''b''])]
                      else []),
      fs_maxoff = 2 ^ 40,
      fs_maxread = 2 ^ 40\<rparr>"

section \<open>Reading from an open handle\<close>

lemma bind_io_Inl [simp]: "bind_io (Inl e, f) k = (Inl e, f)"
  by (simp add: bind_io_def)

lemma bind_io_Inr [simp]: "bind_io (Inr x, f) k = k x f"
  by (simp add: bind_io_def)

lemma read_limit_ge: "2 ^ 32 \<le> int (read_limit f)"
  by (simp add: read_limit_def)

lemma read_limit_pos [simp]: "read_limit (f\<lparr>fd_pos := p\<rparr>) = read_limit f"
  by (simp add: read_limit_def)

lemma fd_read_open:
  assumes "fd_closes f = 0" and "0 \<le> n" and "n \<le> int (read_limit f)"
  shows "fd_read n f =
    (Inr (take (nat n) (drop (fd_pos f) (fd_data f))),
     f\<lparr>fd_pos := fd_pos f + min (nat n) (length (fd_data f) - fd_pos f)\<rparr>)"
proof -
  have "n \<le> 2 ^ 63 - 34" and "n \<le> int (max (2 ^ 32) (fd_maxread f))"
    using assms(3) by (simp_all add: read_limit_def)
  then show ?thesis
    using assms(1,2) by (simp add: fd_read_def Let_def min_def)
qed

lemma read_struct_ok:
  assumes "fd_closes f = 0" and "fst s \<le> 2 ^ 32"
    and "fd_pos f + fst s \<le> length (fd_data f)"
  shows "read_struct f s =
    (Inr (snd s (take (fst s) (drop (fd_pos f) (fd_data f)))), f\<lparr>fd_pos := fd_pos f + fst s\<rparr>)"
proof -
  have "int (fst s) \<le> 2 ^ 32" using assms(2) by (simp flip: of_nat_le_iff)
  then have "int (fst s) \<le> int (read_limit f)" using read_limit_ge [of f] by simp
  then have "fd_read (int (fst s)) f =
    (Inr (take (fst s) (drop (fd_pos f) (fd_data f))),
     f\<lparr>fd_pos := fd_pos f + min (fst s) (length (fd_data f) - fd_pos f)\<rparr>)"
    using fd_read_open [of f "int (fst s)"] assms(1) by simp
  moreover have "min (fst s) (length (fd_data f) - fd_pos f) = fst s"
    using assms(3) by simp
  ultimately show ?thesis using assms(3) by (simp add: read_struct_def)
qed

lemma read_struct_short:
  assumes "fd_closes f = 0" and "fst s \<le> 2 ^ 32" and "0 < fst s"
    and "length (fd_data f) < fd_pos f + fst s"
  shows "fst (read_struct f s) = Inl StructError"
proof -
  have "int (fst s) \<le> 2 ^ 32" using assms(2) by (simp flip: of_nat_le_iff)
  then have "int (fst s) \<le> int (read_limit f)" using read_limit_ge [of f] by simp
  then have "fd_read (int (fst s)) f =
    (Inr (take (fst s) (drop (fd_pos f) (fd_data f))),
     f\<lparr>fd_pos := fd_pos f + min (fst s) (length (fd_data f) - fd_pos f)\<rparr>)"
    using fd_read_open [of f "int (fst s)"] assms(1) by simp
  then show ?thesis using assms(3,4) by (simp add: read_struct_def)
qed

subsection \<open>Operations move the position only\<close>

lemma same_file_refl [simp]: "same_file f f"
  by (simp add: same_file_def)

lemma same_file_pos [simp]: "same_file (f\<lparr>fd_pos := p\<rparr>) g = same_file f g"
  by (simp add: same_file_def)

lemma same_file_pos2 [simp]: "same_file g (f\<lparr>fd_pos := p\<rparr>) = same_file g f"
  by (simp add: same_file_def)

lemma same_file_eq: "same_file f g \<Longrightarrow> f\<lparr>fd_pos := p\<rparr> = g\<lparr>fd_pos := p\<rparr>"
  by (simp add: same_file_def)

lemma fd_read_frame: "same_file f g \<Longrightarrow> same_file (snd (fd_read n f)) g"
  by (simp add: fd_read_def Let_def)

lemma fd_tell_frame: "same_file f g \<Longrightarrow> same_file (snd (fd_tell f)) g"
  by (simp add: fd_tell_def)

lemma fd_seek_frame: "same_file f g \<Longrightarrow> same_file (snd (fd_seek n f)) g"
  by (simp add: fd_seek_def)

lemma fd_seek_cur_frame: "same_file f g \<Longrightarrow> same_file (snd (fd_seek_cur n f)) g"
  by (simp add: fd_seek_cur_def)

lemma bind_io_frame:
  assumes "same_file (snd m) g"
    and "\<And>x f'. same_file f' g \<Longrightarrow> same_file (snd (k x f')) g"
  shows "same_file (snd (bind_io m k)) g"
proof (cases m)
  case (Pair r f1)
  then show ?thesis using assms by (cases r) simp_all
qed

lemma read_struct_frame: "same_file f g \<Longrightarrow> same_file (snd (read_struct f s)) g"
  unfolding read_struct_def by (rule bind_io_frame) (simp_all add: fd_read_frame)

lemma read_children_frame:
  "same_file f g \<Longrightarrow> same_file (snd (read_children n cs f)) g"
proof (induction n arbitrary: cs f)
  case 0
  then show ?case by simp
next
  case (Suc n)
  show ?case
    unfolding read_children.simps
    by (intro bind_io_frame read_struct_frame Suc.prems)
       (auto intro!: bind_io_frame fd_tell_frame fd_seek_frame Suc.IH)
qed

lemma read_pdir_frame: "same_file f g \<Longrightarrow> same_file (snd (read_pdir f)) g"
  unfolding read_pdir_def
  by (intro bind_io_frame read_struct_frame)
     (auto intro!: bind_io_frame fd_seek_cur_frame fd_read_frame read_children_frame
           split: sum.split)

lemma read_file_frame: "same_file f g \<Longrightarrow> same_file (snd (read_file f n)) g"
  unfolding read_file_def
  by (intro bind_io_frame read_struct_frame)
     (auto intro!: bind_io_frame fd_seek_cur_frame fd_read_frame fd_tell_frame
           split: sum.split)

lemma read_entry_frame: "same_file f g \<Longrightarrow> same_file (snd (read_entry f)) g"
  unfolding read_entry_def
  by (intro bind_io_frame fd_tell_frame)
     (auto intro!: bind_io_frame read_struct_frame read_pdir_frame read_file_frame)

lemma read_cp_frame: "same_file f g \<Longrightarrow> same_file (snd (read_cp c f)) g"
  unfolding read_cp_def
  by (intro bind_io_frame fd_seek_frame) (auto intro!: read_entry_frame)

lemma iter_children_frame: "same_file f g \<Longrightarrow> same_file (snd (iter_children cs f)) g"
proof (induction cs arbitrary: f)
  case Nil
  then show ?case by simp
next
  case (Cons c cs)
  show ?case
    unfolding iter_children.simps
    by (intro bind_io_frame read_cp_frame Cons.prems)
       (auto intro!: bind_io_frame Cons.IH)
qed

subsection \<open>The outcome of a read depends on the file, not on where the handle was\<close>

lemma read_cp_same:
  assumes "same_file f g"
  shows "fst (read_cp c f) = fst (read_cp c g)"
proof -
  have "read_entry (f\<lparr>fd_pos := where_cp c\<rparr>) = read_entry (g\<lparr>fd_pos := where_cp c\<rparr>)"
    by (simp only: same_file_eq [OF assms])
  then show ?thesis
    using assms by (simp add: read_cp_def fd_seek_def same_file_def)
qed

lemma iter_children_same:
  "same_file f g \<Longrightarrow> fst (iter_children cs f) = fst (iter_children cs g)"
proof (induction cs arbitrary: f g)
  case Nil
  then show ?case by simp
next
  case (Cons c cs)
  obtain r f1 where rf: "read_cp c f = (r, f1)" by (cases "read_cp c f")
  obtain r' g1 where rg0: "read_cp c g = (r', g1)" by (cases "read_cp c g")
  have "r' = r" using read_cp_same [OF Cons.prems, of c] rf rg0 by simp
  with rg0 have rg: "read_cp c g = (r, g1)" by simp
  have "same_file f1 g" using read_cp_frame [OF Cons.prems, of c] rf by simp
  moreover have "same_file g1 g" using read_cp_frame [of g g c] rg by simp
  ultimately have sf: "same_file f1 g1" by (simp add: same_file_def)
  show ?case
  proof (cases r)
    case (Inl e)
    then show ?thesis by (simp add: rf rg)
  next
    case (Inr x)
    obtain q f2 where qf: "iter_children cs f1 = (q, f2)" by (cases "iter_children cs f1")
    obtain q' g2 where qg0: "iter_children cs g1 = (q', g2)" by (cases "iter_children cs g1")
    have "q' = q" using Cons.IH [OF sf] qf qg0 by simp
    with qg0 have qg: "iter_children cs g1 = (q, g2)" by simp
    show ?thesis by (cases q) (simp_all add: rf rg Inr qf qg)
  qed
qed

subsection \<open>What a well-formed record decodes to\<close>

lemma le_nat_bound: "le_nat bs < 256 ^ length bs"
proof (induction bs)
  case Nil
  then show ?case by simp
next
  case (Cons b bs)
  have "unat b < 2 ^ LENGTH(8)" by (rule unsigned_less)
  then have "unat b < 256" by simp
  with Cons show ?case by simp
qed

lemma unpack_i_upper: "unpack_i bs < 2 ^ 31"
proof -
  have "le_nat (take 4 bs) < 256 ^ length (take 4 bs)" by (rule le_nat_bound)
  also have "\<dots> \<le> 256 ^ 4" by (rule power_increasing) simp_all
  finally have "int (le_nat (take 4 bs)) < 2 ^ 32" by simp
  then show ?thesis by (simp add: unpack_i_def Let_def)
qed

lemma unpack_i_take [simp]: "4 \<le> n \<Longrightarrow> unpack_i (take n bs) = unpack_i bs"
  by (simp add: unpack_i_def min_def)

lemma unpack_I_take [simp]: "4 \<le> n \<Longrightarrow> unpack_I (take n bs) = unpack_I bs"
  by (simp add: unpack_I_def min_def)

lemma unpack_Q_take [simp]: "8 \<le> n \<Longrightarrow> unpack_Q (take n bs) = unpack_Q bs"
  by (simp add: unpack_Q_def min_def)

lemma read_entry_header:
  assumes "at_record f"
  shows "read_entry f =
    (if rec_tag f = PDIR then
       bind_io (read_pdir (f\<lparr>fd_pos := fd_pos f + 8\<rparr>)) (\<lambda>d f3. (Inr (Some d), f3))
     else if rec_tag f = FILE then
       bind_io (read_file (f\<lparr>fd_pos := fd_pos f + 8\<rparr>) (fd_pos f + rec_nextoffs f))
         (\<lambda>e f3. (Inr (Some e), f3))
     else (Inr None, f\<lparr>fd_pos := fd_pos f + 8\<rparr>))"
proof -
  from assms have op: "fd_closes f = 0" and len: "fd_pos f + 8 \<le> length (fd_data f)"
    by (simp_all add: at_record_def)
  have rs: "read_struct f entry_struct =
    (Inr (rec_nextoffs f, rec_tag f), f\<lparr>fd_pos := fd_pos f + 8\<rparr>)"
    using read_struct_ok [of f entry_struct] op len
    by (simp add: entry_struct_def rec_nextoffs_def rec_tag_def drop_take add.commute)
  show ?thesis
    using op by (simp add: read_entry_def fd_tell_def rs)
qed

lemma read_file_ok:
  assumes "at_file f" and "decode_str (file_name_bytes f) = Inr s"
  shows "read_file (f\<lparr>fd_pos := fd_pos f + 8\<rparr>) n =
    (Inr (FileEntry (rstrip_nul s) (int (file_data_start f), int n - int (file_data_start f))),
     f\<lparr>fd_pos := file_data_start f\<rparr>)"
proof -
  let ?g = "f\<lparr>fd_pos := fd_pos f + 8\<rparr>"
  from assms(1) have op: "fd_closes f = 0" and len: "fd_pos f + 12 \<le> length (fd_data f)"
    and ns: "0 \<le> rec_namesize f" and mx: "fd_pos f + 44 \<le> fd_maxoff f"
    by (simp_all add: at_file_def)
  have rs: "read_struct ?g file_info_struct = (Inr (rec_namesize f), f\<lparr>fd_pos := fd_pos f + 12\<rparr>)"
    using read_struct_ok [of ?g file_info_struct] op len
    by (simp add: file_info_struct_def rec_namesize_def add.commute)
  have sk: "fd_seek_cur 0x20 (f\<lparr>fd_pos := fd_pos f + 12\<rparr>) = (Inr (), f\<lparr>fd_pos := fd_pos f + 44\<rparr>)"
    using op mx by (simp add: fd_seek_cur_def nat_add_distrib)
  have "rec_namesize f * 2 \<le> 2 ^ 32"
    using unpack_i_upper [of "drop (fd_pos f + 8) (fd_data f)"] by (simp add: rec_namesize_def)
  then have up: "rec_namesize f * 2 \<le> int (read_limit f)"
    using read_limit_ge [of f] by simp
  have rd: "fd_read (rec_namesize f * 2) (f\<lparr>fd_pos := fd_pos f + 44\<rparr>) =
    (Inr (file_name_bytes f), f\<lparr>fd_pos := file_data_start f\<rparr>)"
    using fd_read_open [of "f\<lparr>fd_pos := fd_pos f + 44\<rparr>" "rec_namesize f * 2"] op ns up
    by (simp add: file_name_bytes_def file_data_start_def nat_mult_distrib mult.commute)
  show ?thesis
    using op by (simp add: read_file_def rs sk rd assms(2) fd_tell_def)
qed


lemma fd_seek_ok:
  assumes "fd_closes f = 0" and "w \<le> fd_maxoff f" and "fd_maxoff f < 2 ^ 63"
  shows "fd_seek (int w) f = (Inr (), f\<lparr>fd_pos := w\<rparr>)"
proof -
  have "int w < 2 ^ 63" using assms(2,3) by (simp flip: of_nat_less_iff add: order_le_less_trans)
  then show ?thesis using assms(1,2) by (simp add: fd_seek_def)
qed



lemma read_entry_file:
  assumes "at_file f" and "decode_str (file_name_bytes f) = Inr s"
  shows "read_entry f =
    (Inr (Some (FileEntry (rstrip_nul s)
       (int (file_data_start f),
        int (fd_pos f + rec_nextoffs f) - int (file_data_start f)))),
     f\<lparr>fd_pos := file_data_start f\<rparr>)"
proof -
  have "at_record f" using assms(1) by (simp add: at_file_def at_record_def)
  moreover have "rec_tag f = FILE" "FILE \<noteq> PDIR"
    using assms(1) by (simp_all add: at_file_def FILE_def PDIR_def)
  ultimately show ?thesis
    by (simp add: read_entry_header read_file_ok [OF assms])
qed


lemma read_entry_other:
  assumes "at_record f" and "rec_tag f \<noteq> PDIR" and "rec_tag f \<noteq> FILE"
  shows "read_entry f = (Inr None, f\<lparr>fd_pos := fd_pos f + 8\<rparr>)"
  using assms by (simp add: read_entry_header)

subsection \<open>Opening, extracting, and the example archive\<close>


lemma read_entry_file_extent:
  assumes "at_file f" and "decode_str (file_name_bytes f) = Inr s"
  shows "read_entry f =
    (Inr (Some (FileEntry (rstrip_nul s) (file_extent f))), f\<lparr>fd_pos := file_data_start f\<rparr>)"
  using read_entry_file [OF assms] by (simp add: file_extent_def)

lemma FileHeader_read_ok:
  assumes "fd_closes f = 0" and "fd_pos f = 0" and "28 \<le> length (fd_data f)"
  shows "FileHeader_read f = (Inr (header_of (fd_data f)), f\<lparr>fd_pos := 28\<rparr>)"
  using assms fd_read_open [of f 28] read_limit_ge [of f]
  by (simp add: FileHeader_read_def header_of_def drop_take unpack_I_def unpack_Q_def min_def)

lemma FileHeader_read_short:
  assumes "fd_closes f = 0" and "fd_pos f = 0" and "length (fd_data f) < 28"
  shows "FileHeader_read f = (Inl StructError, f\<lparr>fd_pos := length (fd_data f)\<rparr>)"
  using assms fd_read_open [of f 28] read_limit_ge [of f]
  by (simp add: FileHeader_read_def min_def)

lemma File_init_fd_frame: "same_file f g \<Longrightarrow> same_file (snd (File_init_fd f)) g"
  unfolding File_init_fd_def FileHeader_read_def read_fs_def
  by (intro bind_io_frame fd_read_frame)
     (auto intro!: bind_io_frame fd_seek_frame read_entry_frame)

lemma File_extract_ok:
  assumes "fd_closes f = 0" and "0 \<le> off" and "off \<le> int (fd_maxoff f)"
    and "fd_maxoff f < 2 ^ 63" and "0 \<le> len" and "len \<le> int (read_limit f)"
  shows "File_extract (FileEntry nm (off, len)) f =
    (Inr (take (nat len) (drop (nat off) (fd_data f))),
     f\<lparr>fd_pos := nat off + min (nat len) (length (fd_data f) - nat off)\<rparr>)"
proof -
  have "nat off \<le> fd_maxoff f" using assms(2,3) by simp
  then have sk: "fd_seek (int (nat off)) f = (Inr (), f\<lparr>fd_pos := nat off\<rparr>)"
    using assms(1,4) by (intro fd_seek_ok)
  have rd: "fd_read len (f\<lparr>fd_pos := nat off\<rparr>) =
    (Inr (take (nat len) (drop (nat off) (fd_data f))),
     f\<lparr>fd_pos := nat off + min (nat len) (length (fd_data f) - nat off)\<rparr>)"
    using fd_read_open [of "f\<lparr>fd_pos := nat off\<rparr>" len] assms(1,5,6) by simp
  show ?thesis using sk rd assms(2) by simp
qed




lemma ex_unknown_record:
  "at_record ex_unknown \<and> rec_tag ex_unknown = [0x58, 0x58, 0x58, 0x58]"
  by (simp add: at_record_def rec_tag_def ex_unknown_def)

lemma ex_neg_file:
  "at_file ex_neg \<and> file_name_bytes ex_neg = [] \<and> file_extent ex_neg = (44, - 44)"
  by (simp add: at_file_def rec_tag_def rec_namesize_def rec_nextoffs_def file_name_bytes_def
      file_extent_def file_data_start_def unpack_i_def unpack_I_def FILE_def ex_neg_def)

lemma ex_file_x:
  "at_file (ex_fd 112) \<and> file_name_bytes (ex_fd 112) = [0x78, 0x00] \<and>
   file_data_start (ex_fd 112) = 158 \<and> file_extent (ex_fd 112) = (158, 2)"
  by (simp add: at_file_def rec_tag_def rec_namesize_def rec_nextoffs_def file_name_bytes_def
      file_extent_def file_data_start_def unpack_i_def unpack_I_def FILE_def ex_fd_def
      ex_archive_def)



lemma decode_x: "decode_str [0x78, 0x00] = Inr [120]"
  by (simp add: decode_str_def)


lemma decode_empty: "decode_str [] = Inr []"
  by (simp add: decode_str_def)

lemma File_init_fd_short:
  assumes "fd_closes f = 0" and "fd_pos f = 0" and "length (fd_data f) < 28"
  shows "File_init_fd f = (Inl StructError, f\<lparr>fd_pos := length (fd_data f)\<rparr>)"
  by (simp add: File_init_fd_def FileHeader_read_short [OF assms])

lemma File_init_fd_root:
  assumes "fd_closes f = 0" and "fd_pos f = 0" and "28 \<le> length (fd_data f)"
    and "rootoffs (header_of (fd_data f)) \<le> fd_maxoff f" and "fd_maxoff f < 2 ^ 63"
    and "read_entry (f\<lparr>fd_pos := rootoffs (header_of (fd_data f))\<rparr>) = (Inr r, f')"
  shows "File_init_fd f = (Inr \<lparr>header = header_of (fd_data f), root_dir = r\<rparr>, f')"
proof -
  let ?h = "header_of (fd_data f)"
  have "fd_seek (int (rootoffs ?h)) (f\<lparr>fd_pos := 28\<rparr>) = (Inr (), f\<lparr>fd_pos := rootoffs ?h\<rparr>)"
    using fd_seek_ok [of "f\<lparr>fd_pos := 28\<rparr>" "rootoffs ?h"] assms(1,4,5) by simp
  then have "read_fs ?h (f\<lparr>fd_pos := 28\<rparr>) = (Inr r, f')"
    using assms(6) by (simp add: read_fs_def)
  then show ?thesis
    by (simp add: File_init_fd_def FileHeader_read_ok [OF assms(1-3)])
qed

lemma File_init_open:
  assumes "fs_file s path = Inr bs"
  shows "File_init s path =
    (fst (File_init_fd \<lparr>fd_data = bs, fd_pos = 0, fd_closes = 0, fd_maxoff = fs_maxoff s, fd_maxread = fs_maxread s\<rparr>),
     Some (snd (File_init_fd \<lparr>fd_data = bs, fd_pos = 0, fd_closes = 0, fd_maxoff = fs_maxoff s, fd_maxread = fs_maxread s\<rparr>)))"
  using assms by (simp add: File_init_def open_rb_def split: prod.split)

lemma File_init_closes:
  assumes "File_init s path = (r, Some f)"
  shows "fd_closes f = 0"
proof (cases "fs_file s path")
  case (Inl e)
  then show ?thesis using assms by (simp add: File_init_def open_rb_def)
next
  case (Inr bs)
  let ?f0 = "\<lparr>fd_data = bs, fd_pos = 0, fd_closes = 0, fd_maxoff = fs_maxoff s, fd_maxread = fs_maxread s\<rparr>"
  have "f = snd (File_init_fd ?f0)" using assms File_init_open [OF Inr] by simp
  moreover have "same_file (snd (File_init_fd ?f0)) ?f0" by (rule File_init_fd_frame) simp
  ultimately show ?thesis by (simp add: same_file_def)
qed

lemma ex_bad_header:
  "header_of ex_badmagic = \<lparr>version = 1, identifier' = [0x58, 0x58, 0x58, 0x58], rootoffs = 28\<rparr>"
  by (simp add: header_of_def ex_badmagic_def unpack_I_def unpack_Q_def)

lemma ex_good_header:
  "header_of ex_archive = \<lparr>version = 1, identifier' = GGPK, rootoffs = 28\<rparr>"
  by (simp add: header_of_def ex_archive_def unpack_I_def unpack_Q_def GGPK_def)

lemma ex_bad_root:
  "read_entry \<lparr>fd_data = ex_badmagic, fd_pos = 28, fd_closes = 0, fd_maxoff = 2 ^ 40, fd_maxread = 2 ^ 40\<rparr> =
   (Inr None, \<lparr>fd_data = ex_badmagic, fd_pos = 36, fd_closes = 0, fd_maxoff = 2 ^ 40, fd_maxread = 2 ^ 40\<rparr>)"
proof -
  let ?f = "\<lparr>fd_data = ex_badmagic, fd_pos = 28, fd_closes = 0, fd_maxoff = 2 ^ 40, fd_maxread = 2 ^ 40\<rparr>"
  have "at_record ?f" "rec_tag ?f \<noteq> PDIR" "rec_tag ?f \<noteq> FILE"
    by (simp_all add: at_record_def rec_tag_def ex_badmagic_def PDIR_def FILE_def)
  then have "read_entry ?f = (Inr None, ?f\<lparr>fd_pos := fd_pos ?f + 8\<rparr>)"
    by (rule read_entry_other)
  then show ?thesis by simp
qed

lemma ex_bad_init:
  "File_init ex_fs ''bad.ggpk'' =
   (Inr \<lparr>header = \<lparr>version = 1, identifier' = [0x58, 0x58, 0x58, 0x58], rootoffs = 28\<rparr>,
          root_dir = None\<rparr>,
    Some \<lparr>fd_data = ex_badmagic, fd_pos = 36, fd_closes = 0, fd_maxoff = 2 ^ 40, fd_maxread = 2 ^ 40\<rparr>)"
proof -
  let ?f0 = "\<lparr>fd_data = ex_badmagic, fd_pos = 0, fd_closes = 0, fd_maxoff = 2 ^ 40, fd_maxread = 2 ^ 40\<rparr>"
  have len: "length ex_badmagic = 36" by (simp add: ex_badmagic_def)
  have "File_init_fd ?f0 =
    (Inr \<lparr>header = header_of (fd_data ?f0), root_dir = None\<rparr>,
     \<lparr>fd_data = ex_badmagic, fd_pos = 36, fd_closes = 0, fd_maxoff = 2 ^ 40, fd_maxread = 2 ^ 40\<rparr>)"
    using ex_bad_root by (intro File_init_fd_root) (simp_all add: len ex_bad_header)
  moreover have "fs_file ex_fs ''bad.ggpk'' = Inr ex_badmagic" "fs_maxoff ex_fs = 2 ^ 40"
    "fs_maxread ex_fs = 2 ^ 40"
    by (simp_all add: ex_fs_def)
  ultimately show ?thesis
    by (simp add: File_init_open [of ex_fs "''bad.ggpk''" ex_badmagic] ex_bad_header)
qed

lemma ex_empty_init:
  "File_init ex_fs ''empty.ggpk'' =
   (Inl StructError, Some \<lparr>fd_data = [], fd_pos = 0, fd_closes = 0, fd_maxoff = 2 ^ 40, fd_maxread = 2 ^ 40\<rparr>)"
proof -
  let ?f0 = "\<lparr>fd_data = [], fd_pos = 0, fd_closes = 0, fd_maxoff = 2 ^ 40, fd_maxread = 2 ^ 40\<rparr>"
  have "File_init_fd ?f0 = (Inl StructError, ?f0\<lparr>fd_pos := length (fd_data ?f0)\<rparr>)"
    by (rule File_init_fd_short) simp_all
  moreover have "fs_file ex_fs ''empty.ggpk'' = Inr []" "fs_maxoff ex_fs = 2 ^ 40"
    "fs_maxread ex_fs = 2 ^ 40"
    by (simp_all add: ex_fs_def)
  ultimately show ?thesis
    by (simp add: File_init_open [of ex_fs "''empty.ggpk''" "[]"])
qed



lemma ex_fd_pos [simp]: "(ex_fd p)\<lparr>fd_pos := q\<rparr> = ex_fd q"
  by (simp add: ex_fd_def)

subsection \<open>The example directories\<close>

lemma ex_tree: "tree ex_fs ''old'' True = [''a''] \<and> tree ex_fs ''new'' True = [''b'']"
  by (simp add: tree_def ex_fs_def os_path_join_def)

lemma ex_compare_a: "compare ex_fs ''old/a'' ''new/a'' 16383 = Inr Deleted"
  by (simp add: compare_def os_path_exists_def ex_fs_def)

lemma ex_compare_b: "compare ex_fs ''old/b'' ''new/b'' 16383 = Inr New"
  by (simp add: compare_def os_path_exists_def ex_fs_def)

lemma ex_item: "write_summary_item DefaultText New ''b'' [] =
    (Inr (), [''ADDED    b'' @ [CHR 0x0A]])"
  by (simp add: write_summary_item_def DefaultText_def calculate_kind_width_def
      Same_def Modified_def New_def Deleted_def)

section \<open>Claims about the archive reader\<close>

text \<open>
  C7. Resolving a child pointer decodes the record at its offset from the bytes of the
  file alone: on two handles that differ in their position only (the same unchanged byte
  source) it gives the same outcome, so resolving the same pointer again after a first
  resolution, and iterating the children of a directory a second time, give the same
  records again (the same name, the same child offsets in the same order), or the same
  exception.
\<close>

theorem resolve_same_file:
  assumes "same_file g f"
  shows "fst (read_cp c g) = fst (read_cp c f) \<and>
         fst (read_cp c (snd (read_cp c f))) = fst (read_cp c f) \<and>
         fst (iter_entry d g) = fst (iter_entry d f) \<and>
         fst (iter_entry d (snd (iter_entry d f))) = fst (iter_entry d f)"
proof (intro conjI)
  show "fst (read_cp c g) = fst (read_cp c f)"
    using assms by (rule read_cp_same)
  have "same_file (snd (read_cp c f)) f" by (rule read_cp_frame) simp
  then show "fst (read_cp c (snd (read_cp c f))) = fst (read_cp c f)"
    by (rule read_cp_same)
  show "fst (iter_entry d g) = fst (iter_entry d f)"
    using assms by (cases d) (simp_all add: iter_children_same)
  show "fst (iter_entry d (snd (iter_entry d f))) = fst (iter_entry d f)"
  proof (cases d)
    case (DirectoryEntry nm cs)
    have "same_file (snd (iter_children cs f)) f" by (rule iter_children_frame) simp
    then show ?thesis using DirectoryEntry by (simp add: iter_children_same)
  next
    case (FileEntry nm w)
    then show ?thesis by simp
  qed
qed

theorem resolve_same_file_witness:
  "same_file (ex_fd 200) (ex_fd 0) \<and>
   fst (read_cp (ChildPointer 28) (ex_fd 200)) = fst (read_cp (ChildPointer 28) (ex_fd 0)) \<and>
   fst (read_cp (ChildPointer 28) (snd (read_cp (ChildPointer 28) (ex_fd 0))))
     = fst (read_cp (ChildPointer 28) (ex_fd 0))"
proof -
  have h: "same_file (ex_fd 200) (ex_fd 0)" by (simp add: same_file_def ex_fd_def)
  show ?thesis
    using h resolve_same_file [OF h, of "ChildPointer 28" "DirectoryEntry [] []"] by simp
qed

text \<open>
  The record of \<open>ex_unknown\<close> has the tag \<^verbatim>\<open>XXXX\<close>, and \<^verbatim>\<open>_read_entry\<close>
  returns \<^verbatim>\<open>None\<close> for it: it does not fail.
\<close>

theorem unknown_tag_counterexample:
  "rec_tag ex_unknown \<noteq> PDIR \<and> rec_tag ex_unknown \<noteq> FILE \<and> rec_tag ex_unknown \<noteq> FREE \<and>
   fst (read_entry ex_unknown) = Inr None"
proof -
  have t: "rec_tag ex_unknown \<noteq> PDIR" "rec_tag ex_unknown \<noteq> FILE" "rec_tag ex_unknown \<noteq> FREE"
    using ex_unknown_record by (simp_all add: PDIR_def FILE_def FREE_def)
  have "read_entry ex_unknown = (Inr None, ex_unknown\<lparr>fd_pos := fd_pos ex_unknown + 8\<rparr>)"
    using ex_unknown_record t by (intro read_entry_other) simp_all
  with t show ?thesis by simp
qed

text \<open>
  C1, as the code has it. At a record whose 8 header bytes can be read and whose tag is
  none of \<^verbatim>\<open>PDIR\<close>, \<^verbatim>\<open>FILE\<close> and \<^verbatim>\<open>FREE\<close>, \<^verbatim>\<open>_read_entry\<close> raises
  nothing: it returns \<^verbatim>\<open>None\<close>, the value it returns for a \<^verbatim>\<open>FREE\<close> record, and
  leaves the handle after the header.
\<close>

theorem unknown_tag_returns_None:
  assumes "at_record f"
    and "rec_tag f \<noteq> PDIR" and "rec_tag f \<noteq> FILE" and "rec_tag f \<noteq> FREE"
  shows "read_entry f = (Inr None, f\<lparr>fd_pos := fd_pos f + 8\<rparr>)"
  using assms(1-3) by (rule read_entry_other)

theorem unknown_tag_returns_None_witness:
  "at_record ex_unknown \<and> rec_tag ex_unknown \<noteq> PDIR \<and> rec_tag ex_unknown \<noteq> FILE \<and>
   rec_tag ex_unknown \<noteq> FREE \<and>
   read_entry ex_unknown = (Inr None, ex_unknown\<lparr>fd_pos := fd_pos ex_unknown + 8\<rparr>)"
proof -
  have r: "at_record ex_unknown" using ex_unknown_record by simp
  have t: "rec_tag ex_unknown \<noteq> PDIR" "rec_tag ex_unknown \<noteq> FILE" "rec_tag ex_unknown \<noteq> FREE"
    using ex_unknown_record by (simp_all add: PDIR_def FILE_def FREE_def)
  show ?thesis using r t unknown_tag_returns_None [OF r t] by simp
qed

text \<open>
  The file record of \<open>ex_neg\<close> has the computed length \<open>0 - 44\<close>, and
  \<^verbatim>\<open>_read_entry\<close> returns a \<^verbatim>\<open>FileEntry\<close> with the size \<open>-44\<close>.
\<close>

theorem negative_length_counterexample:
  "at_file ex_neg \<and>
   int (fd_pos ex_neg) + int (rec_nextoffs ex_neg) - int (file_data_start ex_neg) < 0 \<and>
   fst (read_entry ex_neg) = Inr (Some (FileEntry [] (44, - 44)))"
proof -
  have d: "decode_str (file_name_bytes ex_neg) = Inr []"
    using ex_neg_file decode_empty by simp
  have "fst (read_entry ex_neg) = Inr (Some (FileEntry (rstrip_nul []) (file_extent ex_neg)))"
    using read_entry_file_extent [OF _ d] ex_neg_file by simp
  moreover have "file_extent ex_neg = (44, - 44)" using ex_neg_file by simp
  ultimately show ?thesis using ex_neg_file by (simp add: rstrip_nul_def file_extent_def)
qed

text \<open>
  C3, as the code has it. For a file record whose computed length (current offset plus
  next offset minus the start of the data) is negative, decoding does not fail: it returns
  the \<^verbatim>\<open>FileEntry\<close> with that negative size.
\<close>

theorem negative_length_is_returned:
  assumes "at_file f" and "decode_str (file_name_bytes f) = Inr s"
    and "int (fd_pos f) + int (rec_nextoffs f) - int (file_data_start f) < 0"
  shows "\<exists>offs size. fst (read_entry f) = Inr (Some (FileEntry (rstrip_nul s) (offs, size))) \<and>
           size = int (fd_pos f) + int (rec_nextoffs f) - int (file_data_start f) \<and> size < 0"
  using read_entry_file_extent [OF assms(1,2)] assms(3) by (simp add: file_extent_def)

theorem negative_length_is_returned_witness:
  "at_file ex_neg \<and> decode_str (file_name_bytes ex_neg) = Inr [] \<and>
   int (fd_pos ex_neg) + int (rec_nextoffs ex_neg) - int (file_data_start ex_neg) < 0 \<and>
   (\<exists>offs size. fst (read_entry ex_neg) = Inr (Some (FileEntry (rstrip_nul []) (offs, size))) \<and>
      size = int (fd_pos ex_neg) + int (rec_nextoffs ex_neg) - int (file_data_start ex_neg) \<and>
      size < 0)"
proof -
  have a: "at_file ex_neg" using ex_neg_file by simp
  have d: "decode_str (file_name_bytes ex_neg) = Inr []"
    using ex_neg_file decode_empty by simp
  have n: "int (fd_pos ex_neg) + int (rec_nextoffs ex_neg) - int (file_data_start ex_neg) < 0"
    using ex_neg_file by (simp add: file_extent_def)
  show ?thesis using a d n negative_length_is_returned [OF a d n] by simp
qed

text \<open>
  C5. For a file record decoded at the current offset, with the next offset of its header,
  the offset of the returned \<^verbatim>\<open>FileEntry\<close> is the position of the handle right after
  the bytes of the name (44 bytes of header, name length and unknown bytes, then the name),
  and its size is the current offset plus the next offset, minus that position.
\<close>

theorem file_extent_decoded:
  assumes "at_file f" and "decode_str (file_name_bytes f) = Inr s"
  shows "\<exists>offs size f'. read_entry f = (Inr (Some (FileEntry (rstrip_nul s) (offs, size))), f') \<and>
           offs = int (fd_pos f') \<and>
           fd_pos f' = fd_pos f + 44 + length (file_name_bytes f) \<and>
           size = (int (fd_pos f) + int (rec_nextoffs f)) - offs"
  using read_entry_file_extent [OF assms]
  by (simp add: file_extent_def file_data_start_def)

theorem file_extent_decoded_witness:
  "at_file (ex_fd 112) \<and> decode_str (file_name_bytes (ex_fd 112)) = Inr [120] \<and>
   (\<exists>offs size f'. read_entry (ex_fd 112) =
        (Inr (Some (FileEntry (rstrip_nul [120]) (offs, size))), f') \<and>
      offs = int (fd_pos f') \<and>
      fd_pos f' = fd_pos (ex_fd 112) + 44 + length (file_name_bytes (ex_fd 112)) \<and>
      size = (int (fd_pos (ex_fd 112)) + int (rec_nextoffs (ex_fd 112))) - offs)"
proof -
  have a: "at_file (ex_fd 112)" using ex_file_x by simp
  have d: "decode_str (file_name_bytes (ex_fd 112)) = Inr [120]"
    using ex_file_x decode_x by simp
  show ?thesis using a d file_extent_decoded [OF a d] by simp
qed

text \<open>
  The file \<^verbatim>\<open>bad.ggpk\<close> of \<open>ex_fs\<close> has the identifier \<^verbatim>\<open>XXXX\<close> and a free
  record at its root offset; \<^verbatim>\<open>File('bad.ggpk')\<close> succeeds, with the root \<^verbatim>\<open>None\<close>.
\<close>

theorem open_accepts_any_identifier_counterexample:
  "identifier' (header_of ex_badmagic) \<noteq> GGPK \<and>
   fst (File_init ex_fs ''bad.ggpk'') =
     Inr \<lparr>header = header_of ex_badmagic, root_dir = None\<rparr>"
  by (simp add: ex_bad_init ex_bad_header GGPK_def)

text \<open>
  C2, as the code has it. \<^verbatim>\<open>File(path)\<close> on a file shorter than the 28 bytes of the
  header fails, with \<^verbatim>\<open>struct.error\<close>. On a file of at least 28 bytes the identifier
  is read and kept but never compared with anything, and the record at the root offset is
  not required to be a directory: whenever decoding at the root offset returns, the
  archive is constructed with what it returned as its root, be it a directory, a file
  entry or \<^verbatim>\<open>None\<close>.
\<close>

theorem open_checks_length_only:
  assumes "fs_file s path = Inr bs" and "fs_maxoff s < 2 ^ 63"
  shows "(length bs < 28 \<longrightarrow> fst (File_init s path) = Inl StructError) \<and>
         (28 \<le> length bs \<and> rootoffs (header_of bs) \<le> fs_maxoff s \<and>
          read_entry \<lparr>fd_data = bs, fd_pos = rootoffs (header_of bs), fd_closes = 0,
                       fd_maxoff = fs_maxoff s, fd_maxread = fs_maxread s\<rparr> = (Inr r, f') \<longrightarrow>
            File_init s path = (Inr \<lparr>header = header_of bs, root_dir = r\<rparr>, Some f'))"
proof (intro conjI impI)
  let ?f0 = "\<lparr>fd_data = bs, fd_pos = 0, fd_closes = 0, fd_maxoff = fs_maxoff s, fd_maxread = fs_maxread s\<rparr>"
  assume "length bs < 28"
  then have "File_init_fd ?f0 = (Inl StructError, ?f0\<lparr>fd_pos := length (fd_data ?f0)\<rparr>)"
    by (intro File_init_fd_short) simp_all
  then show "fst (File_init s path) = Inl StructError"
    by (simp add: File_init_open [OF assms(1)])
next
  let ?f0 = "\<lparr>fd_data = bs, fd_pos = 0, fd_closes = 0, fd_maxoff = fs_maxoff s, fd_maxread = fs_maxread s\<rparr>"
  assume a: "28 \<le> length bs \<and> rootoffs (header_of bs) \<le> fs_maxoff s \<and>
          read_entry \<lparr>fd_data = bs, fd_pos = rootoffs (header_of bs), fd_closes = 0,
                       fd_maxoff = fs_maxoff s, fd_maxread = fs_maxread s\<rparr> = (Inr r, f')"
  have "File_init_fd ?f0 = (Inr \<lparr>header = header_of (fd_data ?f0), root_dir = r\<rparr>, f')"
    using a assms(2) by (intro File_init_fd_root) simp_all
  then show "File_init s path = (Inr \<lparr>header = header_of bs, root_dir = r\<rparr>, Some f')"
    by (simp add: File_init_open [OF assms(1)])
qed

theorem open_checks_length_only_witness:
  "fs_file ex_fs ''bad.ggpk'' = Inr ex_badmagic \<and> fs_maxoff ex_fs < 2 ^ 63 \<and>
   28 \<le> length ex_badmagic \<and> rootoffs (header_of ex_badmagic) \<le> fs_maxoff ex_fs \<and>
   File_init ex_fs ''bad.ggpk'' =
     (Inr \<lparr>header = header_of ex_badmagic, root_dir = None\<rparr>,
      Some \<lparr>fd_data = ex_badmagic, fd_pos = 36, fd_closes = 0, fd_maxoff = 2 ^ 40, fd_maxread = 2 ^ 40\<rparr>)"
proof -
  have a: "fs_file ex_fs ''bad.ggpk'' = Inr ex_badmagic" by (simp add: ex_fs_def)
  have m: "fs_maxoff ex_fs < 2 ^ 63" by (simp add: ex_fs_def)
  have l: "28 \<le> length ex_badmagic" by (simp add: ex_badmagic_def)
  have o: "rootoffs (header_of ex_badmagic) \<le> fs_maxoff ex_fs"
    by (simp add: ex_bad_header ex_fs_def)
  have r: "read_entry \<lparr>fd_data = ex_badmagic, fd_pos = rootoffs (header_of ex_badmagic),
                        fd_closes = 0, fd_maxoff = fs_maxoff ex_fs, fd_maxread = fs_maxread ex_fs\<rparr> =
           (Inr None, \<lparr>fd_data = ex_badmagic, fd_pos = 36, fd_closes = 0, fd_maxoff = 2 ^ 40, fd_maxread = 2 ^ 40\<rparr>)"
    using ex_bad_root by (simp add: ex_bad_header ex_fs_def)
  show ?thesis
    using a m l o r
      open_checks_length_only [OF a m, of None
        "\<lparr>fd_data = ex_badmagic, fd_pos = 36, fd_closes = 0, fd_maxoff = 2 ^ 40, fd_maxread = 2 ^ 40\<rparr>"]
    by blast
qed

text \<open>
  On the empty file \<^verbatim>\<open>empty.ggpk\<close> the constructor fails while parsing the header:
  no archive is returned that could be disposed of, and the handle it opened has not been
  closed.
\<close>

theorem failed_open_not_closed_counterexample:
  "\<exists>f. File_init ex_fs ''empty.ggpk'' = (Inl StructError, Some f) \<and> fd_closes f = 0"
  by (simp add: ex_empty_init)

text \<open>
  C8, as the code has it. The constructor never closes the handle it opens, whether it
  succeeds or raises while parsing the header or decoding the root; the handle is closed
  by \<^verbatim>\<open>__exit__\<close>, once for each call of it. After a constructor that returned and one
  \<^verbatim>\<open>__exit__\<close> the byte source has been closed exactly once.
\<close>

theorem closed_by_exit_only:
  assumes "File_init s path = (r, Some f)"
  shows "fd_closes f = 0 \<and> fd_closes (File_exit f) = 1"
  using File_init_closes [OF assms] by (simp add: File_exit_def fd_close_def)

theorem closed_by_exit_only_witness:
  "File_init ex_fs ''bad.ggpk'' =
     (Inr \<lparr>header = \<lparr>version = 1, identifier' = [0x58, 0x58, 0x58, 0x58], rootoffs = 28\<rparr>,
            root_dir = None\<rparr>,
      Some \<lparr>fd_data = ex_badmagic, fd_pos = 36, fd_closes = 0, fd_maxoff = 2 ^ 40, fd_maxread = 2 ^ 40\<rparr>) \<and>
   fd_closes \<lparr>fd_data = ex_badmagic, fd_pos = 36, fd_closes = 0, fd_maxoff = 2 ^ 40, fd_maxread = 2 ^ 40\<rparr> = 0 \<and>
   fd_closes (File_exit \<lparr>fd_data = ex_badmagic, fd_pos = 36, fd_closes = 0, fd_maxoff = 2 ^ 40, fd_maxread = 2 ^ 40\<rparr>) = 1"
  using ex_bad_init closed_by_exit_only [OF ex_bad_init] by simp

text \<open>
  Of the three bytes of \<open>ex_three\<close>, extracting the extent (1, 5) returns the two that
  exist from offset 1, and raises nothing.
\<close>

theorem extract_short_counterexample:
  "fst (File_extract (FileEntry [] (1, 5)) ex_three) = Inr [0x02, 0x03]"
proof -
  have "File_extract (FileEntry [] (1, 5)) ex_three =
    (Inr (take (nat 5) (drop (nat 1) (fd_data ex_three))),
     ex_three\<lparr>fd_pos := nat 1 + min (nat 5) (length (fd_data ex_three) - nat 1)\<rparr>)"
    by (rule File_extract_ok) (simp_all add: ex_three_def read_limit_def)
  then show ?thesis by (simp add: ex_three_def)
qed

text \<open>
  C4, as the code has it. On an open handle, \<^verbatim>\<open>extract\<close> of a file entry whose
  offset is not negative and within what the handle can seek to, and whose size is not
  negative and not above the largest read buffer (\<open>read_limit\<close>: what the machine
  allocates, \<open>2 ^ 63 - 34\<close> at most), returns the bytes of the source from that offset,
  verbatim, up to the size: exactly as many as the size when that many exist from the
  offset, and the fewer that exist otherwise, without raising.
\<close>

theorem extract_reads_available:
  assumes "fd_closes f = 0" and "fd_maxoff f < 2 ^ 63"
    and "0 \<le> offs" and "offs \<le> int (fd_maxoff f)"
    and "0 \<le> len" and "len \<le> int (read_limit f)"
  shows "\<exists>f'. File_extract (FileEntry nm (offs, len)) f =
           (Inr (take (nat len) (drop (nat offs) (fd_data f))), f') \<and>
         length (take (nat len) (drop (nat offs) (fd_data f))) =
           min (nat len) (length (fd_data f) - nat offs)"
  using File_extract_ok [OF assms(1,3,4,2,5,6), of nm] by simp

theorem extract_reads_available_witness:
  "fd_closes ex_three = 0 \<and> fd_maxoff ex_three < 2 ^ 63 \<and> (0::int) \<le> 1 \<and>
   1 \<le> int (fd_maxoff ex_three) \<and> (0::int) \<le> 5 \<and> 5 \<le> int (read_limit ex_three) \<and>
   (\<exists>f'. File_extract (FileEntry [] (1, 5)) ex_three =
           (Inr (take (nat 5) (drop (nat 1) (fd_data ex_three))), f') \<and>
         length (take (nat 5) (drop (nat 1) (fd_data ex_three))) =
           min (nat 5) (length (fd_data ex_three) - nat 1))"
proof -
  have h: "fd_closes ex_three = 0" "fd_maxoff ex_three < 2 ^ 63" "(0::int) \<le> 1"
    "1 \<le> int (fd_maxoff ex_three)" "(0::int) \<le> 5" "5 \<le> int (read_limit ex_three)"
    by (simp_all add: ex_three_def read_limit_def)
  show ?thesis using h extract_reads_available [OF h, of "[]"] by blast
qed



section \<open>Claims about the directory comparison\<close>

text \<open>
  C9, where the code departs from it. In \<open>ex_fs\<close> the file \<^verbatim>\<open>a\<close> is in the first
  (old) directory only and the file \<^verbatim>\<open>b\<close> in the second only. \<^verbatim>\<open>compare\<close> classifies
  \<^verbatim>\<open>a\<close> as \<open>Deleted\<close>, but \<^verbatim>\<open>diff\<close> walks the files of the second directory only
  (it builds the listing of the first and never reads it): it reports \<^verbatim>\<open>b\<close> as added and
  gives \<^verbatim>\<open>a\<close> no classification at all.
\<close>

theorem diff_misses_deleted:
  "tree ex_fs ''old'' True = [''a''] \<and> tree ex_fs ''new'' True = [''b''] \<and>
   compare ex_fs (os_path_join ''old'' ''a'') (os_path_join ''new'' ''a'') 16383 = Inr Deleted \<and>
   diff ex_fs ''old'' ''new'' 16383 DefaultText = (Inr (), [''ADDED    b'' @ [CHR 0x0A]])"
proof -
  have j: "os_path_join ''old'' ''a'' = ''old/a''" "os_path_join ''new'' ''a'' = ''new/a''"
    "os_path_join ''old'' ''b'' = ''old/b''" "os_path_join ''new'' ''b'' = ''new/b''"
    by (simp_all add: os_path_join_def)
  have n: "New \<noteq> Same" by (simp add: New_def Same_def)
  have "diff ex_fs ''old'' ''new'' 16383 DefaultText =
      diff_loop ex_fs ''old'' ''new'' 16383 DefaultText [''b''] []"
    using ex_tree by (simp add: diff_def Let_def)
  also have "\<dots> = (Inr (), [''ADDED    b'' @ [CHR 0x0A]])"
    using n by (simp add: j ex_compare_b ex_item)
  finally show ?thesis using ex_tree ex_compare_a by (simp add: j)
qed

text \<open>
  Neither of the two paths exists, each having a NUL character in it, and \<^verbatim>\<open>compare\<close>
  raises \<^verbatim>\<open>ValueError\<close>, which is not an \<^verbatim>\<open>OSError\<close>.
\<close>

theorem compare_rejected_path_counterexample:
  "os_path_exists ex_fs [CHR ''a'', CHR 0x00] = Inr False \<and>
   os_path_exists ex_fs [CHR ''b'', CHR 0x00] = Inr False \<and>
   compare ex_fs [CHR ''a'', CHR 0x00] [CHR ''b'', CHR 0x00] 16383 = Inl ValueError \<and>
   compare ex_fs [CHR ''a'', CHR 0x00] [CHR ''b'', CHR 0x00] 16383 \<noteq> Inl OSError"
  by (simp add: compare_def os_path_exists_def os_path_getsize_def ex_fs_def)

text \<open>
  C10, as the code has it. When neither of the two paths exists (\<^verbatim>\<open>os.path.exists\<close>
  is false for both), \<^verbatim>\<open>compare\<close> returns none of the four constants: the query of
  the size of the first path raises the exception that \<^verbatim>\<open>os.stat\<close> raises for that
  path, which is \<^verbatim>\<open>OSError\<close> for a path missing from the file system and
  \<^verbatim>\<open>ValueError\<close> (or its subclass \<^verbatim>\<open>UnicodeEncodeError\<close>) for a path that
  \<^verbatim>\<open>os.stat\<close> rejects.
\<close>

theorem compare_neither_exists:
  assumes "os_path_exists s f1 = Inr False" and "os_path_exists s f2 = Inr False"
  shows "(\<exists>e. fs_stat s f1 = Inl e \<and> compare s f1 f2 bufsize = Inl e \<and>
              (e = OSError \<or> e = ValueError \<or> e = UnicodeEncodeError)) \<and>
         (fs_stat s f1 = Inl OSError \<longrightarrow> compare s f1 f2 bufsize = Inl OSError) \<and>
         compare s f1 f2 bufsize \<notin> {Inr Same, Inr Modified, Inr New, Inr Deleted}"
proof -
  obtain e where e: "fs_stat s f1 = Inl e"
    and k: "e = OSError \<or> e = ValueError \<or> e = UnicodeEncodeError"
    using assms(1) by (auto simp: os_path_exists_def split: sum.splits if_splits)
  have "compare s f1 f2 bufsize = Inl e"
    using assms e by (simp add: compare_def os_path_getsize_def)
  with e k show ?thesis by auto
qed

theorem compare_neither_exists_witness:
  "os_path_exists ex_fs ''old/zz'' = Inr False \<and> os_path_exists ex_fs ''new/zz'' = Inr False \<and>
   fs_stat ex_fs ''old/zz'' = Inl OSError \<and>
   compare ex_fs ''old/zz'' ''new/zz'' 16383 = Inl OSError \<and>
   compare ex_fs ''old/zz'' ''new/zz'' 16383 \<notin> {Inr Same, Inr Modified, Inr New, Inr Deleted}"
proof -
  have a: "os_path_exists ex_fs ''old/zz'' = Inr False"
    by (simp add: os_path_exists_def ex_fs_def)
  have b: "os_path_exists ex_fs ''new/zz'' = Inr False"
    by (simp add: os_path_exists_def ex_fs_def)
  have c: "fs_stat ex_fs ''old/zz'' = Inl OSError" by (simp add: ex_fs_def)
  show ?thesis using a b c compare_neither_exists [OF a b, of 16383] by simp
qed

end
